theory Spec2Isabelle
  imports Main
begin

section \<open>Data model of lib/paymentrequest.py\<close>

text \<open>
  Byte strings and text are both Python 2 \<open>str\<close> in the source; they are modelled as
  \<open>string\<close>.
\<close>

type_synonym bytes = string

text \<open>
  Exceptions that leave a function of the module. \<open>DecodeError\<close> is what the protobuf
  codec raises from \<open>ParseFromString\<close>, \<open>X509Error\<close> what \<open>x509.X509.parseBinary\<close>
  raises on a malformed certificate blob, \<open>KeyError\<close> a missing dictionary key under
  \<open>d[k]\<close>, \<open>AttributeError\<close> an attribute read on \<open>None\<close> or on an object that never
  got the attribute, \<open>ResolveError\<close> whatever \<open>contacts.resolve\<close> raises.
\<close>

datatype exn = DecodeError | X509Error | KeyError | AttributeError | ResolveError

text \<open>Status of payment requests (module constants).\<close>

definition PR_UNPAID :: int where "PR_UNPAID = 0"
definition PR_EXPIRED :: int where "PR_EXPIRED = 1"
definition PR_UNKNOWN :: int where "PR_UNKNOWN = 2"
definition PR_PAID :: int where "PR_PAID = 3"
definition PR_ERROR :: int where "PR_ERROR = 4"

text \<open>
  The signature algorithm identifiers of the \<open>x509\<close> module that the chain loop compares
  against; every other identifier is \<open>ALGO_OTHER\<close>.
\<close>

datatype algo = ALGO_RSA_SHA1 | ALGO_RSA_SHA256 | ALGO_RSA_SHA384 | ALGO_RSA_SHA512
  | ALGO_OTHER string

text \<open>
  A parsed \<open>x509.X509\<close> object, as far as \<open>verify_x509\<close> reads it. \<open>check_date\<close> is
  \<open>None\<close> when the call returns and \<open>Some msg\<close> when it raises \<open>Exception(msg)\<close>;
  \<open>get_signature\<close> is the triple (algo, sig, data).
\<close>

record X509 =
  check_date :: "string option"
  get_common_name :: string
  check_ca :: bool
  getFingerprint :: string
  get_issuer_keyID :: string
  get_signature :: "algo \<times> bytes \<times> bytes"
  publicKey :: bytes

text \<open>The decoded \<open>pb2.PaymentRequest\<close> message.\<close>

record envelope =
  pki_type :: string
  pki_data :: bytes
  serialized_payment_details :: bytes
  signature :: bytes

text \<open>The decoded \<open>pb2.PaymentDetails\<close> message: outputs are (script, amount) pairs.\<close>

record PaymentDetails =
  pd_outputs :: "(bytes \<times> nat) list"
  expires :: nat
  memo :: string
  payment_url :: string

text \<open>
  The dictionary returned by \<open>contacts.resolve\<close>, read with \<open>info.get\<close>: a missing key
  reads as \<open>None\<close>.
\<close>

record info =
  validated :: "bool option"
  address :: "string option"

type_synonym contacts = "bytes \<Rightarrow> exn + info"

text \<open>
  The collaborators of the module that are not part of the file: the module globals
  \<open>ca_list\<close> (fingerprint to certificate) and \<open>ca_keyID\<close> (key identifier to fingerprint)
  loaded by \<open>x509.load_certificates\<close>, two dictionaries kept as association lists and
  read with \<open>map_of\<close>, the protobuf codec (\<open>None\<close>: the parse raises),
  the certificate parser, the hash functions, the RSA primitives of a public key, the
  digest prefixes and \<open>bitcoin.verify_message\<close>.
\<close>

record collab =
  ca_list :: "(string \<times> X509) list"
  ca_keyID :: "(string \<times> string) list"
  ParseFromString_PaymentRequest :: "bytes \<Rightarrow> envelope option"
  ParseFromString_PaymentDetails :: "bytes \<Rightarrow> PaymentDetails option"
  ParseFromString_X509Certificates :: "bytes \<Rightarrow> bytes list option"
  SerializeToString :: "envelope \<Rightarrow> bytes"
  parseBinary :: "bytes \<Rightarrow> X509 option"
  sha256 :: "bytes \<Rightarrow> bytes"
  sha384 :: "bytes \<Rightarrow> bytes"
  sha512 :: "bytes \<Rightarrow> bytes"
  PREFIX_RSA_SHA256 :: bytes
  PREFIX_RSA_SHA384 :: bytes
  PREFIX_RSA_SHA512 :: bytes
  pubkey_verify :: "bytes \<Rightarrow> bytes \<Rightarrow> bytes \<Rightarrow> bool"
  pubkey_hashAndVerify :: "bytes \<Rightarrow> bytes \<Rightarrow> bytes \<Rightarrow> bool"
  verify_message :: "string option \<Rightarrow> bytes \<Rightarrow> bytes \<Rightarrow> bool"
  get_address_from_output_script :: "bytes \<Rightarrow> string"

text \<open>
  The attributes of a \<open>PaymentRequest\<close> object. \<open>details\<close>, \<open>outputs\<close> and \<open>error\<close>
  are \<open>None\<close> while the object does not have the attribute (\<open>parse\<close> sets \<open>details\<close> and
  \<open>outputs\<close> only when the envelope decodes, and \<open>error\<close> is first set by a failure).
  \<open>requestor\<close> and \<open>tx\<close> are \<open>None\<close> when they hold Python's \<open>None\<close>. The attributes
  \<open>id\<close>, \<open>data\<close>, \<open>memo\<close> and \<open>payment_url\<close> are left out.
\<close>

record PaymentRequest =
  raw :: bytes
  details :: "PaymentDetails option"
  outputs :: "(string \<times> string \<times> nat) list option"
  error :: "string option"
  requestor :: "string option"
  tx :: "string option"

text \<open>What a method returns: Python's \<open>None\<close>, \<open>False\<close> or \<open>True\<close>, and the object.\<close>

type_synonym verdict = "bool option \<times> PaymentRequest"

text \<open>
  A method that raises leaves the object as it was mutated up to the \<open>raise\<close>: the
  exception comes with the object. The outcome of a verifying method is an exception or
  a verdict.
\<close>

type_synonym raised = "exn \<times> PaymentRequest"

type_synonym outcome = "raised + verdict"

text \<open>The object a verifying method leaves behind, however it ends.\<close>

abbreviation object_after :: "outcome \<Rightarrow> PaymentRequest" where
  "object_after \<equiv> case_sum snd snd"

text \<open>How a loop body leaves the loop: an exception, a \<open>return\<close>, or the next statement.\<close>

datatype 'a flow = Raise exn PaymentRequest | Return "bool option" PaymentRequest | Continue 'a

text \<open>A Python value that is an integer or a boolean, and its truth value.\<close>

datatype pyval = PyInt int | PyBool bool

fun truthy :: "pyval \<Rightarrow> bool" where
  "truthy (PyInt n) = (n \<noteq> 0)"
| "truthy (PyBool b) = b"

record InvoiceStore =
  invoices :: "string \<rightharpoonup> PaymentRequest"

section \<open>PaymentRequest\<close>

text \<open>
  \<open>parse\<close>: a decoding failure of the envelope is caught and recorded in \<open>error\<close>; the
  decoding of the payment details is outside the \<open>try\<close>.
\<close>

definition parse :: "collab \<Rightarrow> PaymentRequest \<Rightarrow> bytes \<Rightarrow> exn + PaymentRequest" where
  "parse c self r =
     (case ParseFromString_PaymentRequest c r of
        None \<Rightarrow> Inr (self\<lparr>error := Some ''cannot parse payment request''\<rparr>)
      | Some d \<Rightarrow>
          (case ParseFromString_PaymentDetails c (serialized_payment_details d) of
             None \<Rightarrow> Inl DecodeError
           | Some det \<Rightarrow>
               Inr (self\<lparr>details := Some det,
                     outputs := Some (map (\<lambda>(script, amount).
                        (''address'', get_address_from_output_script c script, amount))
                        (pd_outputs det))\<rparr>)))"

text \<open>\<open>__init__\<close>: the object has no attribute yet; \<open>requestor\<close> and \<open>tx\<close> start as \<open>None\<close>.\<close>

definition init :: "collab \<Rightarrow> bytes \<Rightarrow> exn + PaymentRequest" where
  "init c data_in =
     (case parse c \<lparr>raw = data_in, details = None, outputs = None, error = None,
                    requestor = None, tx = None\<rparr> data_in of
        Inl e \<Rightarrow> Inl e
      | Inr self \<Rightarrow> Inr (self\<lparr>requestor := None, tx := None\<rparr>))"

text \<open>The common name with a leading \<open>*.\<close> cut off (\<open>startswith\<close>, then \<open>[2:]\<close>).\<close>

definition strip_wildcard :: "string \<Rightarrow> string" where
  "strip_wildcard s = (if take 2 s = ''*.'' then drop 2 s else s)"

text \<open>
  The first loop of \<open>verify_x509\<close>, over the certificate blobs from index \<open>i\<close> on, with
  the chain built so far.
\<close>

fun parse_chain ::
  "collab \<Rightarrow> nat \<Rightarrow> bytes list \<Rightarrow> X509 list \<Rightarrow> PaymentRequest \<Rightarrow> (X509 list \<times> PaymentRequest) flow"
where
  "parse_chain c i [] x509_chain self = Continue (x509_chain, self)"
| "parse_chain c i (b # bs) x509_chain self =
     (case parseBinary c b of
        None \<Rightarrow> Raise X509Error self
      | Some x \<Rightarrow>
          if i = 0 then
            (case check_date x of
               Some e \<Rightarrow> Return None (self\<lparr>error := Some e\<rparr>)
             | None \<Rightarrow>
                 parse_chain c (Suc i) bs (x509_chain @ [x])
                   (self\<lparr>requestor := Some (strip_wildcard (get_common_name x))\<rparr>))
          else if \<not> check_ca x then
            Return None (self\<lparr>error := Some ''ERROR: Supplied CA Certificate Error''\<rparr>)
          else parse_chain c (Suc i) bs (x509_chain @ [x]) self)"

text \<open>
  One step of the second loop: was \<open>prev_x\<close> signed by the key of \<open>x\<close>? \<open>None\<close> when
  the algorithm of the signature is none of the four.
\<close>

definition verify_link :: "collab \<Rightarrow> X509 \<Rightarrow> X509 \<Rightarrow> bool option" where
  "verify_link c prev_x x =
     (case get_signature prev_x of (algo, sig, data_signed) \<Rightarrow>
        (case algo of
           ALGO_RSA_SHA1 \<Rightarrow> Some (pubkey_hashAndVerify c (publicKey x) sig data_signed)
         | ALGO_RSA_SHA256 \<Rightarrow>
             Some (pubkey_verify c (publicKey x) sig (PREFIX_RSA_SHA256 c @ sha256 c data_signed))
         | ALGO_RSA_SHA384 \<Rightarrow>
             Some (pubkey_verify c (publicKey x) sig (PREFIX_RSA_SHA384 c @ sha384 c data_signed))
         | ALGO_RSA_SHA512 \<Rightarrow>
             Some (pubkey_verify c (publicKey x) sig (PREFIX_RSA_SHA512 c @ sha512 c data_signed))
         | ALGO_OTHER _ \<Rightarrow> None))"

text \<open>
  The second loop (\<open>for i in range(1, cert_num)\<close>), as a recursion over the adjacent
  pairs of the chain: \<open>Some msg\<close> when the loop returns \<open>False\<close> with that error,
  \<open>None\<close> when it runs to its end.
\<close>

fun verify_chain_signatures :: "collab \<Rightarrow> X509 list \<Rightarrow> string option" where
  "verify_chain_signatures c (prev_x # x # rest) =
     (case verify_link c prev_x x of
        None \<Rightarrow> Some ''Algorithm not supported''
      | Some v \<Rightarrow>
          if \<not> v then Some ''Certificate not Signed by Provided CA Certificate Chain''
          else verify_chain_signatures c (x # rest))"
| "verify_chain_signatures c _ = None"

text \<open>
  The BIP70 signature check. For a PKI type that is neither of the two, neither branch
  assigns \<open>verify\<close>, which then still holds the value of the last step of the chain loop:
  the loop ran at least once (the chain has two certificates or more) and every step that
  did not return left it true.
\<close>

definition verify_bip70 :: "collab \<Rightarrow> X509 \<Rightarrow> envelope \<Rightarrow> bool" where
  "verify_bip70 c x0 paymntreq =
     (let pubkey0 = publicKey x0;
          sig = signature paymntreq;
          s = SerializeToString c (paymntreq\<lparr>signature := ''''\<rparr>)
      in if pki_type paymntreq = ''x509+sha256'' then
           pubkey_verify c pubkey0 sig (PREFIX_RSA_SHA256 c @ sha256 c s)
         else if pki_type paymntreq = ''x509+sha1'' then
           pubkey_hashAndVerify c pubkey0 sig s
         else True)"

text \<open>\<open>verify_x509\<close> after the first loop, from the check of the number of certificates on.\<close>

definition verify_x509_chain ::
  "collab \<Rightarrow> PaymentRequest \<Rightarrow> envelope \<Rightarrow> nat \<Rightarrow> X509 list \<Rightarrow> outcome"
where
  "verify_x509_chain c self paymntreq cert_num x509_chain =
     (if \<not> cert_num > 1 then
        Inr (Some False,
             self\<lparr>error := Some ''ERROR: CA Certificate Chain Not Provided by Payment Processor''\<rparr>)
      else
        let ca = x509_chain ! (cert_num - 1) in
        (case (if map_of (ca_list c) (getFingerprint ca) = None then
                 (case map_of (ca_keyID c) (get_issuer_keyID ca) of
                    None \<Rightarrow> Return (Some False)
                      (self\<lparr>error := Some ''Supplied CA Not Found in Trusted CA Store.''\<rparr>)
                  | Some f \<Rightarrow>
                      if f \<noteq> [] then
                        (case map_of (ca_list c) f of
                           None \<Rightarrow> Raise KeyError self
                         | Some root \<Rightarrow> Continue (x509_chain @ [root]))
                      else Return (Some False)
                        (self\<lparr>error := Some ''Supplied CA Not Found in Trusted CA Store.''\<rparr>))
               else Continue x509_chain) of
           Raise e self' \<Rightarrow> Inl (e, self')
         | Return r self' \<Rightarrow> Inr (r, self')
         | Continue x509_chain' \<Rightarrow>
             (case verify_chain_signatures c x509_chain' of
                Some msg \<Rightarrow> Inr (Some False, self\<lparr>error := Some msg\<rparr>)
              | None \<Rightarrow>
                  if \<not> verify_bip70 c (x509_chain' ! 0) paymntreq then
                    Inr (Some False,
                         self\<lparr>error := Some ''ERROR: Invalid Signature for Payment Request Data''\<rparr>)
                  else
                    Inr (Some True,
                         self\<lparr>error := Some (''Signed by Trusted CA: '' @ get_common_name ca)\<rparr>))))"

definition verify_x509 :: "collab \<Rightarrow> PaymentRequest \<Rightarrow> envelope \<Rightarrow> outcome" where
  "verify_x509 c self paymntreq =
     (if ca_list c = [] then
        Inr (Some False,
             self\<lparr>error := Some ''Trusted certificate authorities list not found''\<rparr>)
      else
        (case ParseFromString_X509Certificates c (pki_data paymntreq) of
           None \<Rightarrow> Inl (DecodeError, self)
         | Some certificate \<Rightarrow>
             (case parse_chain c 0 certificate [] self of
                Raise e self' \<Rightarrow> Inl (e, self')
              | Return r self' \<Rightarrow> Inr (r, self')
              | Continue (x509_chain, self') \<Rightarrow>
                  verify_x509_chain c self' paymntreq (length certificate) x509_chain)))"

definition verify_dnssec ::
  "collab \<Rightarrow> PaymentRequest \<Rightarrow> envelope \<Rightarrow> contacts \<Rightarrow> outcome"
where
  "verify_dnssec c self pr cts =
     (let sig = signature pr; alias = pki_data pr in
      case cts alias of
        Inl e \<Rightarrow> Inl (e, self)
      | Inr info \<Rightarrow>
          if validated info \<noteq> Some True then
            Inr (Some False, self\<lparr>error := Some ''Alias verification failed (DNSSEC)''\<rparr>)
          else if pki_type pr = ''dnssec+btc'' then
            (let self' = self\<lparr>requestor := Some alias\<rparr>;
                 message = SerializeToString c (pr\<lparr>signature := ''''\<rparr>)
             in if verify_message c (address info) sig message then
                  Inr (Some True, self'\<lparr>error := Some ''Verified with DNSSEC''\<rparr>)
                else Inr (Some False, self'\<lparr>error := Some ''verify failed''\<rparr>))
          else Inr (Some False, self\<lparr>error := Some ''unknown algo''\<rparr>))"

definition verify :: "collab \<Rightarrow> PaymentRequest \<Rightarrow> contacts \<Rightarrow> outcome" where
  "verify c self cts =
     (if raw self = [] then Inr (None, self\<lparr>error := Some ''Empty request''\<rparr>)
      else
        (case ParseFromString_PaymentRequest c (raw self) of
           None \<Rightarrow> Inl (DecodeError, self)
         | Some pr \<Rightarrow>
             if signature pr = [] then Inr (None, self\<lparr>error := Some ''No signature''\<rparr>)
             else if pki_type pr = ''x509+sha256'' \<or> pki_type pr = ''x509+sha1'' then
               verify_x509 c self pr
             else if pki_type pr = ''dnssec+btc'' \<or> pki_type pr = ''dnssec+ecdsa'' then
               verify_dnssec c self pr cts
             else
               Inr (Some False,
                    self\<lparr>error := Some ''ERROR: Unsupported PKI Type for Message Signature''\<rparr>)))"

text \<open>
  \<open>has_expired\<close> at wall-clock time \<open>now\<close> (the value of \<open>int(time.time())\<close>): Python's
  \<open>and\<close> returns its first operand when that is falsy, so the result is the integer 0
  when \<open>expires\<close> is 0 and the boolean of the comparison otherwise. An object whose
  envelope did not decode has no \<open>details\<close>.
\<close>

definition has_expired :: "PaymentRequest \<Rightarrow> int \<Rightarrow> exn + pyval" where
  "has_expired self now =
     (case details self of
        None \<Rightarrow> Inl AttributeError
      | Some d \<Rightarrow>
          if expires d = 0 then Inr (PyInt (int (expires d)))
          else Inr (PyBool (int (expires d) < now)))"

definition get_requestor :: "PaymentRequest \<Rightarrow> string" where
  "get_requestor self =
     (case requestor self of
        None \<Rightarrow> ''unknown''
      | Some r \<Rightarrow> if r \<noteq> [] then r else ''unknown'')"

definition get_verify_status :: "PaymentRequest \<Rightarrow> exn + string" where
  "get_verify_status self = (case error self of None \<Rightarrow> Inl AttributeError | Some e \<Rightarrow> Inr e)"

section \<open>InvoiceStore\<close>

definition get :: "InvoiceStore \<Rightarrow> string \<Rightarrow> PaymentRequest option" where
  "get self k = invoices self k"

definition get_status :: "InvoiceStore \<Rightarrow> string \<Rightarrow> int \<Rightarrow> exn + int" where
  "get_status self key now =
     (case get self key of
        None \<Rightarrow> Inl AttributeError
      | Some pr \<Rightarrow>
          if tx pr \<noteq> None then Inr PR_PAID
          else
            (case has_expired pr now of
               Inl e \<Rightarrow> Inl e
             | Inr v \<Rightarrow> if truthy v then Inr PR_EXPIRED else Inr PR_UNPAID))"

definition set_paid :: "InvoiceStore \<Rightarrow> string \<Rightarrow> string \<Rightarrow> exn + InvoiceStore" where
  "set_paid self key tx_hash =
     (case invoices self key of
        None \<Rightarrow> Inl KeyError
      | Some pr \<Rightarrow> Inr (self\<lparr>invoices := (invoices self)(key \<mapsto> pr\<lparr>tx := Some tx_hash\<rparr>)\<rparr>))"

section \<open>Example data\<close>

text \<open>
  A small trust store and a toy signature scheme, for running the functions above on
  concrete requests: a signature by key \<open>k\<close> over \<open>m\<close> is the text \<open>k#m\<close>.
\<close>

definition ex_root :: X509 where
  "ex_root = \<lparr>check_date = None, get_common_name = ''Root CA'', check_ca = True,
     getFingerprint = ''fpR'', get_issuer_keyID = ''idR'',
     get_signature = (ALGO_RSA_SHA256, ''kR#P256:sha256:tbsR'', ''tbsR''), publicKey = ''kR''\<rparr>"

definition ex_intermediate :: X509 where
  "ex_intermediate = \<lparr>check_date = None, get_common_name = ''Intermediate CA'', check_ca = True,
     getFingerprint = ''fpI'', get_issuer_keyID = ''idR'',
     get_signature = (ALGO_RSA_SHA256, ''kR#P256:sha256:tbsI'', ''tbsI''), publicKey = ''kI''\<rparr>"

definition ex_leaf :: X509 where
  "ex_leaf = \<lparr>check_date = None, get_common_name = ''*.merchant.example'', check_ca = False,
     getFingerprint = ''fpL'', get_issuer_keyID = ''idR'',
     get_signature = (ALGO_RSA_SHA256, ''kR#P256:sha256:tbsL'', ''tbsL''), publicKey = ''kL''\<rparr>"

definition ex_leaf_sub :: X509 where
  "ex_leaf_sub = \<lparr>check_date = None, get_common_name = ''shop.example'', check_ca = False,
     getFingerprint = ''fpM'', get_issuer_keyID = ''idI'',
     get_signature = (ALGO_RSA_SHA1, ''kI#sha1:tbsM'', ''tbsM''), publicKey = ''kL''\<rparr>"

definition ex_expired :: X509 where
  "ex_expired = \<lparr>check_date = Some ''Certificate has expired.'',
     get_common_name = ''old.example'', check_ca = False,
     getFingerprint = ''fpX'', get_issuer_keyID = ''idR'',
     get_signature = (ALGO_RSA_SHA256, ''kR#P256:sha256:tbsX'', ''tbsX''), publicKey = ''kX''\<rparr>"

definition ex_rogue :: X509 where
  "ex_rogue = \<lparr>check_date = None, get_common_name = ''Rogue CA'', check_ca = True,
     getFingerprint = ''fpQ'', get_issuer_keyID = ''idQ'',
     get_signature = (ALGO_RSA_SHA256, ''kQ#P256:sha256:tbsQ'', ''tbsQ''), publicKey = ''kI''\<rparr>"

definition ex_forged :: X509 where
  "ex_forged = \<lparr>check_date = None, get_common_name = ''Forged CA'', check_ca = True,
     getFingerprint = ''fpF'', get_issuer_keyID = ''idR'',
     get_signature = (ALGO_RSA_SHA256, ''kZ#P256:sha256:tbsF'', ''tbsF''), publicKey = ''kI''\<rparr>"

definition ex_env_direct :: envelope where
  "ex_env_direct = \<lparr>pki_type = ''x509+sha256'', pki_data = ''LR'',
     serialized_payment_details = ''details'',
     signature = ''kL#P256:sha256:x509+sha256|LR|details|''\<rparr>"

definition ex_env_recovered :: envelope where
  "ex_env_recovered = \<lparr>pki_type = ''x509+sha1'', pki_data = ''MI'',
     serialized_payment_details = ''details'',
     signature = ''kL#sha1:x509+sha1|MI|details|''\<rparr>"

definition ex_env_rogue :: envelope where
  "ex_env_rogue = \<lparr>pki_type = ''x509+sha1'', pki_data = ''MQ'',
     serialized_payment_details = ''details'',
     signature = ''kL#sha1:x509+sha1|MQ|details|''\<rparr>"

definition ex_env_forged :: envelope where
  "ex_env_forged = \<lparr>pki_type = ''x509+sha1'', pki_data = ''MF'',
     serialized_payment_details = ''details'',
     signature = ''kL#sha1:x509+sha1|MF|details|''\<rparr>"

definition ex_env_broken :: envelope where
  "ex_env_broken = \<lparr>pki_type = ''x509+sha256'', pki_data = ''LZ'',
     serialized_payment_details = ''details'', signature = ''s''\<rparr>"

definition ex_env_single :: envelope where
  "ex_env_single = \<lparr>pki_type = ''x509+sha256'', pki_data = ''L'',
     serialized_payment_details = ''details'',
     signature = ''kL#P256:sha256:x509+sha256|L|details|''\<rparr>"

definition ex_env_expired :: envelope where
  "ex_env_expired = \<lparr>pki_type = ''x509+sha256'', pki_data = ''X'',
     serialized_payment_details = ''details'', signature = ''s''\<rparr>"

definition ex_env_ecdsa :: envelope where
  "ex_env_ecdsa = \<lparr>pki_type = ''dnssec+ecdsa'', pki_data = ''alice.example'',
     serialized_payment_details = ''details'', signature = ''s''\<rparr>"

definition ex_env_btc :: envelope where
  "ex_env_btc = \<lparr>pki_type = ''dnssec+btc'', pki_data = ''bob.example'',
     serialized_payment_details = ''details'', signature = ''btc-ok''\<rparr>"

definition ex_env_btc_bad :: envelope where
  "ex_env_btc_bad = \<lparr>pki_type = ''dnssec+btc'', pki_data = ''alice.example'',
     serialized_payment_details = ''details'', signature = ''btc-bad''\<rparr>"

definition ex_env_none :: envelope where
  "ex_env_none = \<lparr>pki_type = ''none'', pki_data = [],
     serialized_payment_details = ''details'', signature = ''s''\<rparr>"

definition ex_details :: PaymentDetails where
  "ex_details = \<lparr>pd_outputs = [], expires = 100, memo = ''m'', payment_url = []\<rparr>"

definition ex_collab :: collab where
  "ex_collab = \<lparr>
     ca_list = [(''fpR'', ex_root)],
     ca_keyID = [(''idR'', ''fpR'')],
     ParseFromString_PaymentRequest = (\<lambda>r.
        if r = ''raw-direct'' then Some ex_env_direct
        else if r = ''raw-recovered'' then Some ex_env_recovered
        else if r = ''raw-rogue'' then Some ex_env_rogue
        else if r = ''raw-forged'' then Some ex_env_forged
        else if r = ''raw-broken'' then Some ex_env_broken
        else if r = ''raw-single'' then Some ex_env_single
        else if r = ''raw-expired'' then Some ex_env_expired
        else if r = ''raw-ecdsa'' then Some ex_env_ecdsa
        else if r = ''raw-btc'' then Some ex_env_btc
        else if r = ''raw-btc-bad'' then Some ex_env_btc_bad
        else if r = ''raw-none'' then Some ex_env_none
        else None),
     ParseFromString_PaymentDetails = (\<lambda>d. if d = ''details'' then Some ex_details else None),
     ParseFromString_X509Certificates = (\<lambda>d.
        if d = ''LR'' then Some [''certL'', ''certR'']
        else if d = ''MI'' then Some [''certM'', ''certI'']
        else if d = ''MQ'' then Some [''certM'', ''certQ'']
        else if d = ''MF'' then Some [''certM'', ''certF'']
        else if d = ''LZ'' then Some [''certL'', ''junk'']
        else if d = ''L'' then Some [''certL'']
        else if d = ''X'' then Some [''certX'']
        else None),
     SerializeToString = (\<lambda>e. pki_type e @ ''|'' @ pki_data e @ ''|'' @
        serialized_payment_details e @ ''|'' @ signature e),
     parseBinary = (\<lambda>b.
        if b = ''certL'' then Some ex_leaf
        else if b = ''certM'' then Some ex_leaf_sub
        else if b = ''certI'' then Some ex_intermediate
        else if b = ''certR'' then Some ex_root
        else if b = ''certQ'' then Some ex_rogue
        else if b = ''certF'' then Some ex_forged
        else if b = ''certX'' then Some ex_expired
        else None),
     sha256 = (\<lambda>d. ''sha256:'' @ d),
     sha384 = (\<lambda>d. ''sha384:'' @ d),
     sha512 = (\<lambda>d. ''sha512:'' @ d),
     PREFIX_RSA_SHA256 = ''P256:'',
     PREFIX_RSA_SHA384 = ''P384:'',
     PREFIX_RSA_SHA512 = ''P512:'',
     pubkey_verify = (\<lambda>k sig m. sig = k @ ''#'' @ m),
     pubkey_hashAndVerify = (\<lambda>k sig m. sig = k @ ''#sha1:'' @ m),
     verify_message = (\<lambda>a sig m. sig = ''btc-ok''),
     get_address_from_output_script = (\<lambda>script. script)\<rparr>"

definition ex_contacts :: contacts where
  "ex_contacts alias =
     (if alias = ''alice.example'' then Inr \<lparr>validated = Some True, address = Some ''1Alice''\<rparr>
      else if alias = ''bob.example'' then Inr \<lparr>validated = Some False, address = Some ''1Bob''\<rparr>
      else Inl ResolveError)"

text \<open>A request object as \<open>__init__\<close> leaves it when the envelope decodes.\<close>

definition ex_request :: "bytes \<Rightarrow> PaymentRequest" where
  "ex_request r = \<lparr>raw = r, details = Some ex_details, outputs = Some [], error = None,
     requestor = None, tx = None\<rparr>"

text \<open>A request object as \<open>__init__\<close> leaves it when the envelope does not decode.\<close>

definition ex_undecoded :: PaymentRequest where
  "ex_undecoded = \<lparr>raw = ''garbage'', details = None, outputs = None,
     error = Some ''cannot parse payment request'', requestor = None, tx = None\<rparr>"

lemmas ex_defs = ex_collab_def ex_contacts_def ex_request_def ex_undecoded_def ex_details_def
  ex_env_direct_def ex_env_recovered_def ex_env_single_def ex_env_expired_def ex_env_ecdsa_def
  ex_env_btc_def ex_root_def ex_intermediate_def ex_leaf_def ex_leaf_sub_def ex_expired_def
  ex_rogue_def ex_forged_def ex_env_rogue_def ex_env_forged_def ex_env_none_def
  ex_env_btc_bad_def ex_env_broken_def

section \<open>Facts about the two loops\<close>

lemma strip_wildcard_other: "take 2 s \<noteq> ''*.'' \<Longrightarrow> strip_wildcard s = s"
  by (simp add: strip_wildcard_def)

lemma parse_chain_tail:
  "0 < i \<Longrightarrow> map (parseBinary c) bs = map Some xs \<Longrightarrow> \<forall>x\<in>set xs. check_ca x \<Longrightarrow>
   parse_chain c i bs acc self = Continue (acc @ xs, self)"
proof (induction bs arbitrary: i xs acc)
  case Nil
  then show ?case by simp
next
  case (Cons b bs)
  then obtain x xs' where xs: "xs = x # xs'" by (cases xs) auto
  with Cons.prems have b: "parseBinary c b = Some x" and rest: "map (parseBinary c) bs = map Some xs'"
    and ca: "check_ca x" and cas: "\<forall>y\<in>set xs'. check_ca y"
    by auto
  have "parse_chain c (Suc i) bs (acc @ [x]) self = Continue ((acc @ [x]) @ xs', self)"
    using Cons.IH [OF _ rest cas] by simp
  with b ca Cons.prems(1) xs show ?case by simp
qed

lemma parse_chain_all:
  assumes "map (parseBinary c) bs = map Some (leaf # cas)" and "check_date leaf = None"
    and "\<forall>x\<in>set cas. check_ca x"
  shows "parse_chain c 0 bs [] self =
    Continue (leaf # cas, self\<lparr>requestor := Some (strip_wildcard (get_common_name leaf))\<rparr>)"
proof -
  from assms(1) obtain b bs' where bs: "bs = b # bs'" and b: "parseBinary c b = Some leaf"
    and rest: "map (parseBinary c) bs' = map Some cas"
    by (cases bs) auto
  show ?thesis
    using b assms(2) parse_chain_tail [OF _ rest assms(3), of "Suc 0" "[leaf]"]
    by (simp add: bs)
qed

lemma verify_chain_signatures_snoc:
  "xs \<noteq> [] \<Longrightarrow> verify_chain_signatures c (xs @ [r]) =
     (case verify_chain_signatures c xs of
        Some m \<Rightarrow> Some m
      | None \<Rightarrow>
          (case verify_link c (last xs) r of
             None \<Rightarrow> Some ''Algorithm not supported''
           | Some v \<Rightarrow>
               if \<not> v then Some ''Certificate not Signed by Provided CA Certificate Chain''
               else None))"
proof (induction xs)
  case Nil
  then show ?case by simp
next
  case (Cons prev_x xs)
  note IH = Cons.IH
  show ?case
  proof (cases xs)
    case Nil
    then show ?thesis by (simp split: option.splits)
  next
    case (Cons x rest)
    with IH show ?thesis by (simp split: option.splits)
  qed
qed

lemma parse_chain_requestor_tail:
  "0 < i \<Longrightarrow>
   (parse_chain c i bs acc self = Raise e self' \<longrightarrow> requestor self' = requestor self) \<and>
   (parse_chain c i bs acc self = Return r self' \<longrightarrow> requestor self' = requestor self) \<and>
   (parse_chain c i bs acc self = Continue (ch, self') \<longrightarrow> requestor self' = requestor self)"
proof (induction bs arbitrary: i acc)
  case Nil
  then show ?case by auto
next
  case (Cons b bs)
  show ?case
  proof (cases "parseBinary c b")
    case None
    then show ?thesis by auto
  next
    case (Some x)
    show ?thesis
      using Some Cons.prems Cons.IH [of "Suc i" "acc @ [x]"] by auto
  qed
qed

lemma verify_x509_chain_requestor:
  "requestor (object_after (verify_x509_chain c self pr n ch)) = requestor self"
  by (simp add: verify_x509_chain_def Let_def split: option.split)

lemma verify_x509_requestor_read:
  assumes store: "ca_list c \<noteq> []"
    and certs: "ParseFromString_X509Certificates c (pki_data pr) = Some (b # bs)"
    and leaf: "parseBinary c b = Some x"
    and date: "check_date x = None"
  shows "requestor (object_after (verify_x509 c self pr)) =
    Some (strip_wildcard (get_common_name x))"
proof -
  define self0 where "self0 = self\<lparr>requestor := Some (strip_wildcard (get_common_name x))\<rparr>"
  have step: "parse_chain c 0 (b # bs) [] self = parse_chain c (Suc 0) bs [x] self0"
    using leaf date by (simp add: self0_def)
  note tail = parse_chain_requestor_tail [of "Suc 0" c bs "[x]" self0]
  show ?thesis
  proof (cases "parse_chain c (Suc 0) bs [x] self0")
    case (Raise e s0)
    with store certs step have "object_after (verify_x509 c self pr) = s0"
      by (simp add: verify_x509_def)
    moreover from Raise tail [where e = e and self' = s0]
    have "requestor s0 = requestor self0" by simp
    ultimately show ?thesis by (simp add: self0_def)
  next
    case (Return r0 s0)
    with store certs step have "object_after (verify_x509 c self pr) = s0"
      by (simp add: verify_x509_def)
    moreover from Return tail [where r = r0 and self' = s0]
    have "requestor s0 = requestor self0" by simp
    ultimately show ?thesis by (simp add: self0_def)
  next
    case (Continue p)
    obtain ch s0 where p: "p = (ch, s0)" by (cases p)
    with Continue store certs step
    have "object_after (verify_x509 c self pr) =
        object_after (verify_x509_chain c s0 pr (length (b # bs)) ch)"
      by (simp add: verify_x509_def)
    then have "requestor (object_after (verify_x509 c self pr)) = requestor s0"
      by (simp only: verify_x509_chain_requestor)
    moreover from Continue p tail [where ch = ch and self' = s0]
    have "requestor s0 = requestor self0" by simp
    ultimately show ?thesis by (simp add: self0_def)
  qed
qed

lemma verify_x509_requestor_early:
  assumes early: "ca_list c = [] \<or>
      ParseFromString_X509Certificates c (pki_data pr) = None \<or>
      ParseFromString_X509Certificates c (pki_data pr) = Some [] \<or>
      ParseFromString_X509Certificates c (pki_data pr) = Some (b # bs) \<and>
        (parseBinary c b = None \<or> parseBinary c b = Some x \<and> check_date x \<noteq> None)"
  shows "requestor (object_after (verify_x509 c self pr)) = requestor self"
proof (cases "ca_list c = []")
  case True
  then show ?thesis by (simp add: verify_x509_def)
next
  case store: False
  with early consider
      (undecoded) "ParseFromString_X509Certificates c (pki_data pr) = None"
    | (none) "ParseFromString_X509Certificates c (pki_data pr) = Some []"
    | (malformed) "ParseFromString_X509Certificates c (pki_data pr) = Some (b # bs)"
        "parseBinary c b = None"
    | (outdated) "ParseFromString_X509Certificates c (pki_data pr) = Some (b # bs)"
        "parseBinary c b = Some x" "check_date x \<noteq> None"
    by auto
  then show ?thesis
  proof cases
    case undecoded
    with store show ?thesis by (simp add: verify_x509_def)
  next
    case none
    with store have "object_after (verify_x509 c self pr) =
        object_after (verify_x509_chain c self pr 0 [])"
      by (simp add: verify_x509_def)
    then show ?thesis by (simp only: verify_x509_chain_requestor)
  next
    case malformed
    with store show ?thesis by (simp add: verify_x509_def)
  next
    case outdated
    from outdated(3) obtain msg where "check_date x = Some msg" by (cases "check_date x") auto
    with store outdated(1,2) show ?thesis by (simp add: verify_x509_def)
  qed
qed

lemma verify_dnssec_requestor_read:
  assumes "cts (pki_data pr) = Inr info" and "validated info = Some True"
    and "pki_type pr = ''dnssec+btc''"
  shows "requestor (object_after (verify_dnssec c self pr cts)) = Some (pki_data pr)"
  using assms by (simp add: verify_dnssec_def Let_def)

lemma verify_dnssec_requestor_early:
  assumes early: "cts (pki_data pr) = Inl e \<or>
      cts (pki_data pr) = Inr info \<and> validated info \<noteq> Some True \<or>
      pki_type pr \<noteq> ''dnssec+btc''"
  shows "requestor (object_after (verify_dnssec c self pr cts)) = requestor self"
proof (cases "cts (pki_data pr)")
  case (Inl e')
  then show ?thesis by (simp add: verify_dnssec_def)
next
  case (Inr i)
  show ?thesis
  proof (cases "validated i = Some True")
    case False
    with Inr show ?thesis by (simp add: verify_dnssec_def)
  next
    case True
    with early Inr have "pki_type pr \<noteq> ''dnssec+btc''" by auto
    with Inr True show ?thesis by (simp add: verify_dnssec_def)
  qed
qed

lemma verify_requestor:
  "requestor (object_after (verify c self cts)) =
     (if raw self = [] then requestor self
      else case ParseFromString_PaymentRequest c (raw self) of
        None \<Rightarrow> requestor self
      | Some pr \<Rightarrow>
          if signature pr = [] then requestor self
          else if pki_type pr = ''x509+sha256'' \<or> pki_type pr = ''x509+sha1'' then
            requestor (object_after (verify_x509 c self pr))
          else if pki_type pr = ''dnssec+btc'' \<or> pki_type pr = ''dnssec+ecdsa'' then
            requestor (object_after (verify_dnssec c self pr cts))
          else requestor self)"
  by (simp add: verify_def split: option.split)

section \<open>X.509 chain verification\<close>

text \<open>
  C1. For a chain of two certificates that both parse, whose second (root) certificate
  has the CA flag and a fingerprint in the trust store, whose leaf is within its validity
  window, whose leaf was signed by the root (the chain link verifies) and whose envelope
  signature verifies under the leaf's key, \<open>verify_x509\<close> returns \<open>True\<close>, and so does
  \<open>verify\<close> on a non-empty signed request of an x509 PKI type that decodes to the
  envelope. The requestor is then the leaf's common name with a leading \<open>*.\<close> stripped.
\<close>

theorem verify_x509_two_certificates:
  assumes certs: "ParseFromString_X509Certificates c (pki_data paymntreq) = Some [b0, b1]"
    and leaf: "parseBinary c b0 = Some leaf"
    and root: "parseBinary c b1 = Some root"
    and trusted: "map_of (ca_list c) (getFingerprint root) \<noteq> None"
    and date: "check_date leaf = None"
    and ca: "check_ca root"
    and link: "verify_link c leaf root = Some True"
    and bip70: "verify_bip70 c leaf paymntreq"
  shows "verify_x509 c self paymntreq =
           Inr (Some True,
                self\<lparr>requestor := Some (strip_wildcard (get_common_name leaf)),
                     error := Some (''Signed by Trusted CA: '' @ get_common_name root)\<rparr>) \<and>
         (raw self \<noteq> [] \<and> ParseFromString_PaymentRequest c (raw self) = Some paymntreq \<and>
          signature paymntreq \<noteq> [] \<and>
          (pki_type paymntreq = ''x509+sha256'' \<or> pki_type paymntreq = ''x509+sha1'') \<longrightarrow>
          verify c self cts = verify_x509 c self paymntreq) \<and>
         (get_common_name leaf = ''*.'' @ s \<longrightarrow> strip_wildcard (get_common_name leaf) = s) \<and>
         (take 2 (get_common_name leaf) \<noteq> ''*.'' \<longrightarrow>
          strip_wildcard (get_common_name leaf) = get_common_name leaf)"
proof -
  from trusted have nonempty: "ca_list c \<noteq> []" by auto
  have loop: "parse_chain c 0 [b0, b1] [] self =
      Continue ([leaf, root], self\<lparr>requestor := Some (strip_wildcard (get_common_name leaf))\<rparr>)"
    using leaf root date ca by simp
  have chain: "verify_chain_signatures c [leaf, root] = None"
    using link by simp
  have main: "verify_x509 c self paymntreq =
           Inr (Some True,
                self\<lparr>requestor := Some (strip_wildcard (get_common_name leaf)),
                     error := Some (''Signed by Trusted CA: '' @ get_common_name root)\<rparr>)"
    using nonempty certs loop chain trusted bip70
    by (auto simp: verify_x509_def verify_x509_chain_def)
  have dispatch: "raw self \<noteq> [] \<and> ParseFromString_PaymentRequest c (raw self) = Some paymntreq \<and>
          signature paymntreq \<noteq> [] \<and>
          (pki_type paymntreq = ''x509+sha256'' \<or> pki_type paymntreq = ''x509+sha1'') \<longrightarrow>
          verify c self cts = verify_x509 c self paymntreq"
    by (auto simp: verify_def)
  have star: "get_common_name leaf = ''*.'' @ s \<longrightarrow> strip_wildcard (get_common_name leaf) = s"
    by (simp add: strip_wildcard_def)
  have plain: "take 2 (get_common_name leaf) \<noteq> ''*.'' \<longrightarrow>
      strip_wildcard (get_common_name leaf) = get_common_name leaf"
    by (simp add: strip_wildcard_other)
  from main dispatch star plain show ?thesis
    by blast
qed

theorem verify_x509_two_certificates_witness:
  "verify ex_collab (ex_request ''raw-direct'') ex_contacts =
     Inr (Some True, (ex_request ''raw-direct'')\<lparr>requestor := Some ''merchant.example'',
            error := Some ''Signed by Trusted CA: Root CA''\<rparr>)"
proof -
  have certs: "ParseFromString_X509Certificates ex_collab (pki_data ex_env_direct)
      = Some [''certL'', ''certR'']"
    by (simp add: ex_collab_def ex_env_direct_def)
  have leaf: "parseBinary ex_collab ''certL'' = Some ex_leaf"
    by (simp add: ex_collab_def)
  have root: "parseBinary ex_collab ''certR'' = Some ex_root"
    by (simp add: ex_collab_def)
  have trusted: "map_of (ca_list ex_collab) (getFingerprint ex_root) \<noteq> None"
    by (simp add: ex_collab_def ex_root_def)
  have date: "check_date ex_leaf = None"
    by (simp add: ex_leaf_def)
  have ca: "check_ca ex_root"
    by (simp add: ex_root_def)
  have link: "verify_link ex_collab ex_leaf ex_root = Some True"
    by (simp add: verify_link_def ex_collab_def ex_leaf_def ex_root_def)
  have bip70: "verify_bip70 ex_collab ex_leaf ex_env_direct"
    by (simp add: verify_bip70_def ex_collab_def ex_leaf_def ex_env_direct_def)
  have dispatch: "raw (ex_request ''raw-direct'') \<noteq> [] \<and>
      ParseFromString_PaymentRequest ex_collab (raw (ex_request ''raw-direct'')) = Some ex_env_direct \<and>
      signature ex_env_direct \<noteq> [] \<and>
      (pki_type ex_env_direct = ''x509+sha256'' \<or> pki_type ex_env_direct = ''x509+sha1'')"
    by (simp add: ex_collab_def ex_request_def ex_env_direct_def)
  have cn: "get_common_name ex_leaf = ''*.'' @ ''merchant.example''"
    by (simp add: ex_leaf_def)
  show ?thesis
    using verify_x509_two_certificates [OF certs leaf root trusted date ca link bip70,
        of "ex_request ''raw-direct''" ex_contacts "''merchant.example''"] dispatch cn
    by (simp add: ex_root_def)
qed

text \<open>
  C2. For a chain of two or more certificates that passes the per-certificate loop and
  whose last supplied certificate has a fingerprint that is not in the trust store: when
  the trust store has a root under that certificate's issuer key identifier, the root is
  appended and verification goes on with the extended chain; it succeeds when the links
  of the supplied chain, the link from the last supplied certificate to the recovered
  root and the envelope signature all verify, and it fails when the link to the recovered
  root does not verify. When the trust store has no root under that identifier,
  verification fails with \<open>Supplied CA Not Found in Trusted CA Store.\<close>
\<close>

theorem trust_anchor_recovery:
  assumes store: "ca_list c \<noteq> []"
    and certs: "ParseFromString_X509Certificates c (pki_data paymntreq) = Some certificate"
    and parsed: "map (parseBinary c) certificate = map Some (leaf # cas)"
    and two: "cas \<noteq> []"
    and date: "check_date leaf = None"
    and flags: "\<forall>x\<in>set cas. check_ca x"
    and absent: "map_of (ca_list c) (getFingerprint (last cas)) = None"
  shows
    "(map_of (ca_keyID c) (get_issuer_keyID (last cas)) = Some f \<and> f \<noteq> [] \<and>
      map_of (ca_list c) f = Some root \<longrightarrow>
        (verify_chain_signatures c (leaf # cas) = None \<and>
         verify_link c (last cas) root = Some True \<and> verify_bip70 c leaf paymntreq \<longrightarrow>
           (\<exists>status. verify_x509 c self paymntreq =
              Inr (Some True, self\<lparr>requestor := Some (strip_wildcard (get_common_name leaf)),
                                   error := Some status\<rparr>))) \<and>
        (verify_link c (last cas) root \<noteq> Some True \<longrightarrow>
           (\<exists>msg. verify_x509 c self paymntreq =
              Inr (Some False, self\<lparr>requestor := Some (strip_wildcard (get_common_name leaf)),
                                    error := Some msg\<rparr>)))) \<and>
     (map_of (ca_keyID c) (get_issuer_keyID (last cas)) = None \<or>
      map_of (ca_keyID c) (get_issuer_keyID (last cas)) = Some [] \<longrightarrow>
        verify_x509 c self paymntreq =
          Inr (Some False, self\<lparr>requestor := Some (strip_wildcard (get_common_name leaf)),
                 error := Some ''Supplied CA Not Found in Trusted CA Store.''\<rparr>))"
proof -
  define self0 where "self0 = self\<lparr>requestor := Some (strip_wildcard (get_common_name leaf))\<rparr>"
  have len: "length certificate = Suc (length cas)"
    using arg_cong [OF parsed, of length] by simp
  have loop: "parse_chain c 0 certificate [] self = Continue (leaf # cas, self0)"
    unfolding self0_def by (rule parse_chain_all [OF parsed date flags])
  have ca: "(leaf # cas) ! (length certificate - 1) = last cas"
    using two len by (simp add: last_conv_nth nth_Cons')
  have gt: "1 < length certificate"
    using two len by simp
  have rest: "verify_x509 c self paymntreq =
      verify_x509_chain c self0 paymntreq (length certificate) (leaf # cas)"
    using store certs loop by (simp add: verify_x509_def)
  have lastc: "last (leaf # cas) = last cas"
    using two by simp
  have snoc: "verify_chain_signatures c (leaf # cas @ [root]) =
     (case verify_chain_signatures c (leaf # cas) of
        Some m \<Rightarrow> Some m
      | None \<Rightarrow>
          (case verify_link c (last cas) root of
             None \<Rightarrow> Some ''Algorithm not supported''
           | Some v \<Rightarrow>
               if \<not> v then Some ''Certificate not Signed by Provided CA Certificate Chain''
               else None))"
    using verify_chain_signatures_snoc [of "leaf # cas" c root, unfolded lastc] by simp
  have miss: "map_of (ca_keyID c) (get_issuer_keyID (last cas)) = None \<or>
      map_of (ca_keyID c) (get_issuer_keyID (last cas)) = Some [] \<longrightarrow>
        verify_x509 c self paymntreq =
          Inr (Some False, self0\<lparr>error := Some ''Supplied CA Not Found in Trusted CA Store.''\<rparr>)"
    unfolding rest verify_x509_chain_def Let_def ca using absent gt by auto
  have hit: "verify_x509 c self paymntreq =
      (case verify_chain_signatures c (leaf # cas @ [root]) of
         Some msg \<Rightarrow> Inr (Some False, self0\<lparr>error := Some msg\<rparr>)
       | None \<Rightarrow>
           if \<not> verify_bip70 c leaf paymntreq then
             Inr (Some False, self0\<lparr>error := Some ''ERROR: Invalid Signature for Payment Request Data''\<rparr>)
           else Inr (Some True, self0\<lparr>error := Some (''Signed by Trusted CA: '' @ get_common_name (last cas))\<rparr>))"
    if "map_of (ca_keyID c) (get_issuer_keyID (last cas)) = Some f" "f \<noteq> []"
       "map_of (ca_list c) f = Some root"
    unfolding rest verify_x509_chain_def Let_def ca using that absent gt by simp
  have good: "\<exists>status. verify_x509 c self paymntreq = Inr (Some True, self0\<lparr>error := Some status\<rparr>)"
    if "map_of (ca_keyID c) (get_issuer_keyID (last cas)) = Some f" "f \<noteq> []"
       "map_of (ca_list c) f = Some root"
       "verify_chain_signatures c (leaf # cas) = None"
       "verify_link c (last cas) root = Some True" "verify_bip70 c leaf paymntreq"
  proof -
    have "verify_chain_signatures c (leaf # cas @ [root]) = None"
      using that(4,5) by (simp add: snoc)
    with hit [OF that(1-3)] that(6) have "verify_x509 c self paymntreq =
        Inr (Some True,
             self0\<lparr>error := Some (''Signed by Trusted CA: '' @ get_common_name (last cas))\<rparr>)"
      by simp
    then show ?thesis by (rule exI)
  qed
  have bad: "\<exists>msg. verify_x509 c self paymntreq = Inr (Some False, self0\<lparr>error := Some msg\<rparr>)"
    if "map_of (ca_keyID c) (get_issuer_keyID (last cas)) = Some f" "f \<noteq> []"
       "map_of (ca_list c) f = Some root" "verify_link c (last cas) root \<noteq> Some True"
  proof -
    have "\<exists>m. verify_chain_signatures c (leaf # cas @ [root]) = Some m"
      using that(4) by (auto simp: snoc split: option.splits)
    then obtain m where "verify_chain_signatures c (leaf # cas @ [root]) = Some m" ..
    with hit [OF that(1-3)] have "verify_x509 c self paymntreq =
        Inr (Some False, self0\<lparr>error := Some m\<rparr>)"
      by simp
    then show ?thesis by (rule exI)
  qed
  from miss good bad show ?thesis
    unfolding self0_def by blast
qed

theorem trust_anchor_recovery_witness:
  "(\<exists>status. verify_x509 ex_collab (ex_request ''raw-recovered'') ex_env_recovered =
      Inr (Some True, (ex_request ''raw-recovered'')\<lparr>requestor := Some ''shop.example'',
             error := Some status\<rparr>)) \<and>
   (\<exists>msg. verify_x509 ex_collab (ex_request ''raw-forged'') ex_env_forged =
      Inr (Some False, (ex_request ''raw-forged'')\<lparr>requestor := Some ''shop.example'',
             error := Some msg\<rparr>)) \<and>
   verify_x509 ex_collab (ex_request ''raw-rogue'') ex_env_rogue =
      Inr (Some False, (ex_request ''raw-rogue'')\<lparr>requestor := Some ''shop.example'',
             error := Some ''Supplied CA Not Found in Trusted CA Store.''\<rparr>)"
proof -
  have store: "ca_list ex_collab \<noteq> []"
    by (simp add: ex_collab_def)
  have date: "check_date ex_leaf_sub = None"
    by (simp add: ex_leaf_sub_def)
  have cn: "strip_wildcard (get_common_name ex_leaf_sub) = ''shop.example''"
    by (simp add: strip_wildcard_def ex_leaf_sub_def)

  have certs1: "ParseFromString_X509Certificates ex_collab (pki_data ex_env_recovered)
      = Some [''certM'', ''certI'']"
    by (simp add: ex_collab_def ex_env_recovered_def)
  have parsed1: "map (parseBinary ex_collab) [''certM'', ''certI'']
      = map Some (ex_leaf_sub # [ex_intermediate])"
    by (simp add: ex_collab_def)
  have two1: "[ex_intermediate] \<noteq> []" by simp
  have flags1: "\<forall>x\<in>set [ex_intermediate]. check_ca x"
    by (simp add: ex_intermediate_def)
  have absent1: "map_of (ca_list ex_collab) (getFingerprint (last [ex_intermediate])) = None"
    by (simp add: ex_collab_def ex_intermediate_def)
  have hit1: "map_of (ca_keyID ex_collab) (get_issuer_keyID (last [ex_intermediate])) = Some ''fpR'' \<and>
      ''fpR'' \<noteq> [] \<and> map_of (ca_list ex_collab) ''fpR'' = Some ex_root"
    by (simp add: ex_collab_def ex_intermediate_def)
  have sigs1: "verify_chain_signatures ex_collab (ex_leaf_sub # [ex_intermediate]) = None \<and>
      verify_link ex_collab (last [ex_intermediate]) ex_root = Some True \<and>
      verify_bip70 ex_collab ex_leaf_sub ex_env_recovered"
    by (simp add: verify_link_def verify_bip70_def ex_collab_def ex_leaf_sub_def
        ex_intermediate_def ex_root_def ex_env_recovered_def)
  have recovered: "\<exists>status. verify_x509 ex_collab (ex_request ''raw-recovered'') ex_env_recovered =
      Inr (Some True, (ex_request ''raw-recovered'')\<lparr>requestor := Some ''shop.example'',
             error := Some status\<rparr>)"
    using trust_anchor_recovery [OF store certs1 parsed1 two1 date flags1 absent1,
        where f = "''fpR''" and root = ex_root and self = "ex_request ''raw-recovered''"]
      hit1 sigs1 unfolding cn by blast

  have certs2: "ParseFromString_X509Certificates ex_collab (pki_data ex_env_forged)
      = Some [''certM'', ''certF'']"
    by (simp add: ex_collab_def ex_env_forged_def)
  have parsed2: "map (parseBinary ex_collab) [''certM'', ''certF'']
      = map Some (ex_leaf_sub # [ex_forged])"
    by (simp add: ex_collab_def)
  have two2: "[ex_forged] \<noteq> []" by simp
  have flags2: "\<forall>x\<in>set [ex_forged]. check_ca x"
    by (simp add: ex_forged_def)
  have absent2: "map_of (ca_list ex_collab) (getFingerprint (last [ex_forged])) = None"
    by (simp add: ex_collab_def ex_forged_def)
  have hit2: "map_of (ca_keyID ex_collab) (get_issuer_keyID (last [ex_forged])) = Some ''fpR'' \<and>
      ''fpR'' \<noteq> [] \<and> map_of (ca_list ex_collab) ''fpR'' = Some ex_root"
    by (simp add: ex_collab_def ex_forged_def)
  have bad2: "verify_link ex_collab (last [ex_forged]) ex_root \<noteq> Some True"
    by (simp add: verify_link_def ex_collab_def ex_forged_def ex_root_def)
  have forged: "\<exists>msg. verify_x509 ex_collab (ex_request ''raw-forged'') ex_env_forged =
      Inr (Some False, (ex_request ''raw-forged'')\<lparr>requestor := Some ''shop.example'',
             error := Some msg\<rparr>)"
    using trust_anchor_recovery [OF store certs2 parsed2 two2 date flags2 absent2,
        where f = "''fpR''" and root = ex_root and self = "ex_request ''raw-forged''"]
      hit2 bad2 unfolding cn by blast

  have certs3: "ParseFromString_X509Certificates ex_collab (pki_data ex_env_rogue)
      = Some [''certM'', ''certQ'']"
    by (simp add: ex_collab_def ex_env_rogue_def)
  have parsed3: "map (parseBinary ex_collab) [''certM'', ''certQ'']
      = map Some (ex_leaf_sub # [ex_rogue])"
    by (simp add: ex_collab_def)
  have two3: "[ex_rogue] \<noteq> []" by simp
  have flags3: "\<forall>x\<in>set [ex_rogue]. check_ca x"
    by (simp add: ex_rogue_def)
  have absent3: "map_of (ca_list ex_collab) (getFingerprint (last [ex_rogue])) = None"
    by (simp add: ex_collab_def ex_rogue_def)
  have miss3: "map_of (ca_keyID ex_collab) (get_issuer_keyID (last [ex_rogue])) = None"
    by (simp add: ex_collab_def ex_rogue_def)
  have rogue: "verify_x509 ex_collab (ex_request ''raw-rogue'') ex_env_rogue =
      Inr (Some False, (ex_request ''raw-rogue'')\<lparr>requestor := Some ''shop.example'',
             error := Some ''Supplied CA Not Found in Trusted CA Store.''\<rparr>)"
    using trust_anchor_recovery [OF store certs3 parsed3 two3 date flags3 absent3,
        where self = "ex_request ''raw-rogue''"]
      miss3 unfolding cn by blast

  from recovered forged rogue show ?thesis by blast
qed

text \<open>
  C4, as the code has it. With a loaded trust store, a single-certificate chain whose
  certificate parses and is within its validity window fails with
  \<open>ERROR: CA Certificate Chain Not Provided by Payment Processor\<close>, whatever the
  signature primitives answer. The check of the number of certificates runs after the
  per-certificate loop: a lone leaf outside its validity window fails in the loop, with
  the message of the validity check and the result \<open>None\<close>.
\<close>

theorem single_certificate_rejected:
  assumes store: "ca_list c \<noteq> []"
    and certs: "ParseFromString_X509Certificates c (pki_data paymntreq) = Some [b]"
    and leaf: "parseBinary c b = Some leaf"
  shows "(check_date leaf = None \<longrightarrow>
            verify_x509 c self paymntreq =
              Inr (Some False,
                   self\<lparr>requestor := Some (strip_wildcard (get_common_name leaf)),
                        error := Some ''ERROR: CA Certificate Chain Not Provided by Payment Processor''\<rparr>)) \<and>
         (check_date leaf = Some e \<longrightarrow>
            verify_x509 c self paymntreq = Inr (None, self\<lparr>error := Some e\<rparr>))"
  using assms by (simp add: verify_x509_def verify_x509_chain_def)

theorem single_certificate_rejected_witness:
  "verify_x509 ex_collab (ex_request ''raw-single'') ex_env_single =
     Inr (Some False, (ex_request ''raw-single'')\<lparr>requestor := Some ''merchant.example'',
        error := Some ''ERROR: CA Certificate Chain Not Provided by Payment Processor''\<rparr>) \<and>
   verify_x509 ex_collab (ex_request ''raw-expired'') ex_env_expired =
     Inr (None, (ex_request ''raw-expired'')\<lparr>error := Some ''Certificate has expired.''\<rparr>)"
proof -
  have store: "ca_list ex_collab \<noteq> []"
    by (simp add: ex_collab_def)
  have certs1: "ParseFromString_X509Certificates ex_collab (pki_data ex_env_single) = Some [''certL'']"
    by (simp add: ex_collab_def ex_env_single_def)
  have leaf1: "parseBinary ex_collab ''certL'' = Some ex_leaf"
    by (simp add: ex_collab_def)
  have date1: "check_date ex_leaf = None"
    by (simp add: ex_leaf_def)
  have cn: "strip_wildcard (get_common_name ex_leaf) = ''merchant.example''"
    by (simp add: strip_wildcard_def ex_leaf_def)
  have certs2: "ParseFromString_X509Certificates ex_collab (pki_data ex_env_expired) = Some [''certX'']"
    by (simp add: ex_collab_def ex_env_expired_def)
  have leaf2: "parseBinary ex_collab ''certX'' = Some ex_expired"
    by (simp add: ex_collab_def)
  have date2: "check_date ex_expired = Some ''Certificate has expired.''"
    by (simp add: ex_expired_def)
  show ?thesis
    using single_certificate_rejected [OF store certs1 leaf1,
        where self = "ex_request ''raw-single''"]
      single_certificate_rejected [OF store certs2 leaf2,
        where e = "''Certificate has expired.''" and self = "ex_request ''raw-expired''"]
      date1 date2 unfolding cn by blast
qed

text \<open>
  The claim C4 as stated fails on a single expired leaf: the error is the one of the
  validity check, not the one of the missing chain.
\<close>

theorem single_expired_leaf_counterexample:
  "ParseFromString_X509Certificates ex_collab (pki_data ex_env_expired) = Some [''certX''] \<and>
   verify_x509 ex_collab (ex_request ''raw-expired'') ex_env_expired =
     Inr (None, (ex_request ''raw-expired'')\<lparr>error := Some ''Certificate has expired.''\<rparr>) \<and>
   verify_x509 ex_collab (ex_request ''raw-expired'') ex_env_expired \<noteq>
     Inr (Some False, (ex_request ''raw-expired'')
        \<lparr>error := Some ''ERROR: CA Certificate Chain Not Provided by Payment Processor''\<rparr>)"
  by (simp add: verify_x509_def ex_collab_def ex_env_expired_def ex_expired_def)

text \<open>
  C5 on a chain completed by trust-anchor recovery: the leaf was issued by an
  intermediate CA that is not in the trust store, the trust store holds the root under
  the intermediate's issuer key identifier. Verification succeeds, and the status names
  the intermediate CA (the last supplied certificate), not the trusted root.
\<close>

theorem recovered_chain_status_names_supplied_ca:
  "verify ex_collab (ex_request ''raw-recovered'') ex_contacts =
     Inr (Some True, (ex_request ''raw-recovered'')\<lparr>requestor := Some ''shop.example'',
            error := Some ''Signed by Trusted CA: Intermediate CA''\<rparr>) \<and>
   map_of (ca_list ex_collab) (getFingerprint ex_intermediate) = None \<and>
   map_of (ca_keyID ex_collab) (get_issuer_keyID ex_intermediate) = Some (getFingerprint ex_root) \<and>
   map_of (ca_list ex_collab) (getFingerprint ex_root) = Some ex_root \<and>
   get_common_name ex_root = ''Root CA''"
  by (simp add: verify_def verify_x509_def verify_x509_chain_def verify_link_def verify_bip70_def
      strip_wildcard_def ex_defs)

section \<open>Exceptions leaving verify\<close>

text \<open>
  C3 on raw bytes that do not decode: \<open>__init__\<close> catches the decoding error in
  \<open>parse\<close> and records it, while \<open>verify\<close> decodes the same bytes again outside any
  \<open>try\<close>, so the error leaves \<open>verify\<close>.
\<close>

theorem verify_raises_on_undecodable:
  "init ex_collab ''garbage'' = Inr ex_undecoded \<and>
   verify ex_collab ex_undecoded ex_contacts = Inl (DecodeError, ex_undecoded)"
  by (simp add: init_def parse_def verify_def ex_collab_def ex_undecoded_def)

section \<open>Alias verification\<close>

text \<open>
  C7. When the resolver's answer for the alias does not have \<open>validated\<close> equal to
  \<open>True\<close>, \<open>verify_dnssec\<close> returns \<open>False\<close> with the error
  \<open>Alias verification failed (DNSSEC)\<close>, and so does \<open>verify\<close> on a non-empty signed
  request of a dnssec PKI type. The result is the same for every message-signature
  primitive \<open>vm\<close>, also one that accepts every signature: the signature is not looked at.
\<close>

theorem unvalidated_alias_rejected:
  assumes resolved: "cts (pki_data pr) = Inr info"
    and unvalidated: "validated info \<noteq> Some True"
  shows "verify_dnssec (c\<lparr>verify_message := vm\<rparr>) self pr cts =
           Inr (Some False, self\<lparr>error := Some ''Alias verification failed (DNSSEC)''\<rparr>) \<and>
         (raw self \<noteq> [] \<and> ParseFromString_PaymentRequest c (raw self) = Some pr \<and>
          signature pr \<noteq> [] \<and>
          (pki_type pr = ''dnssec+btc'' \<or> pki_type pr = ''dnssec+ecdsa'') \<longrightarrow>
            verify (c\<lparr>verify_message := vm\<rparr>) self cts =
              Inr (Some False, self\<lparr>error := Some ''Alias verification failed (DNSSEC)''\<rparr>))"
  using assms by (auto simp: verify_def verify_dnssec_def)

theorem unvalidated_alias_rejected_witness:
  "verify (ex_collab\<lparr>verify_message := (\<lambda>a sig m. True)\<rparr>) (ex_request ''raw-btc'') ex_contacts =
     Inr (Some False, (ex_request ''raw-btc'')\<lparr>error := Some ''Alias verification failed (DNSSEC)''\<rparr>)"
proof -
  have resolved: "ex_contacts (pki_data ex_env_btc) = Inr \<lparr>validated = Some False, address = Some ''1Bob''\<rparr>"
    by (simp add: ex_contacts_def ex_env_btc_def)
  have unvalidated: "validated \<lparr>validated = Some False, address = Some ''1Bob''\<rparr> \<noteq> Some True"
    by simp
  have dispatch: "raw (ex_request ''raw-btc'') \<noteq> [] \<and>
      ParseFromString_PaymentRequest ex_collab (raw (ex_request ''raw-btc'')) = Some ex_env_btc \<and>
      signature ex_env_btc \<noteq> [] \<and>
      (pki_type ex_env_btc = ''dnssec+btc'' \<or> pki_type ex_env_btc = ''dnssec+ecdsa'')"
    by (simp add: ex_collab_def ex_request_def ex_env_btc_def)
  show ?thesis
    using unvalidated_alias_rejected [where cts = ex_contacts and pr = ex_env_btc
        and c = ex_collab and vm = "\<lambda>a sig m. True" and self = "ex_request ''raw-btc''",
        OF resolved unvalidated] dispatch
    by blast
qed

text \<open>
  C8. For an envelope of PKI type \<open>dnssec+ecdsa\<close> whose alias is DNSSEC-validated,
  \<open>verify_dnssec\<close> returns \<open>False\<close> with the error \<open>unknown algo\<close>, and \<open>verify\<close>
  reaches it through the dispatch for a non-empty signed request. The status differs
  from the one of a request with an unrecognised PKI type, which fails with
  \<open>ERROR: Unsupported PKI Type for Message Signature\<close>.
\<close>

theorem dnssec_ecdsa_not_implemented:
  assumes ecdsa: "pki_type pr = ''dnssec+ecdsa''"
    and resolved: "cts (pki_data pr) = Inr info"
    and validated: "validated info = Some True"
  shows "verify_dnssec c self pr cts = Inr (Some False, self\<lparr>error := Some ''unknown algo''\<rparr>) \<and>
         (raw self \<noteq> [] \<and> ParseFromString_PaymentRequest c (raw self) = Some pr \<and>
          signature pr \<noteq> [] \<longrightarrow>
            verify c self cts = Inr (Some False, self\<lparr>error := Some ''unknown algo''\<rparr>)) \<and>
         (raw other \<noteq> [] \<and> ParseFromString_PaymentRequest c (raw other) = Some pr' \<and>
          signature pr' \<noteq> [] \<and> pki_type pr' \<noteq> ''x509+sha256'' \<and> pki_type pr' \<noteq> ''x509+sha1'' \<and>
          pki_type pr' \<noteq> ''dnssec+btc'' \<and> pki_type pr' \<noteq> ''dnssec+ecdsa'' \<longrightarrow>
            verify c other cts =
              Inr (Some False,
                   other\<lparr>error := Some ''ERROR: Unsupported PKI Type for Message Signature''\<rparr>) \<and>
            get_verify_status
              (other\<lparr>error := Some ''ERROR: Unsupported PKI Type for Message Signature''\<rparr>) \<noteq>
            get_verify_status (self\<lparr>error := Some ''unknown algo''\<rparr>))"
proof -
  have refused: "verify_dnssec c self pr cts = Inr (Some False, self\<lparr>error := Some ''unknown algo''\<rparr>)"
    using assms by (simp add: verify_dnssec_def)
  have dispatch: "raw self \<noteq> [] \<and> ParseFromString_PaymentRequest c (raw self) = Some pr \<and>
      signature pr \<noteq> [] \<longrightarrow> verify c self cts = verify_dnssec c self pr cts"
    using ecdsa by (simp add: verify_def)
  have generic: "raw other \<noteq> [] \<and> ParseFromString_PaymentRequest c (raw other) = Some pr' \<and>
      signature pr' \<noteq> [] \<and> pki_type pr' \<noteq> ''x509+sha256'' \<and> pki_type pr' \<noteq> ''x509+sha1'' \<and>
      pki_type pr' \<noteq> ''dnssec+btc'' \<and> pki_type pr' \<noteq> ''dnssec+ecdsa'' \<longrightarrow>
        verify c other cts =
          Inr (Some False,
               other\<lparr>error := Some ''ERROR: Unsupported PKI Type for Message Signature''\<rparr>)"
    by (simp add: verify_def)
  have differ: "get_verify_status
      (other\<lparr>error := Some ''ERROR: Unsupported PKI Type for Message Signature''\<rparr>) \<noteq>
      get_verify_status (self\<lparr>error := Some ''unknown algo''\<rparr>)"
    by (simp add: get_verify_status_def)
  from refused dispatch generic differ show ?thesis
    by simp
qed

theorem dnssec_ecdsa_not_implemented_witness:
  "verify ex_collab (ex_request ''raw-ecdsa'') ex_contacts =
     Inr (Some False, (ex_request ''raw-ecdsa'')\<lparr>error := Some ''unknown algo''\<rparr>) \<and>
   verify ex_collab (ex_request ''raw-none'') ex_contacts =
     Inr (Some False, (ex_request ''raw-none'')
        \<lparr>error := Some ''ERROR: Unsupported PKI Type for Message Signature''\<rparr>)"
proof -
  have ecdsa: "pki_type ex_env_ecdsa = ''dnssec+ecdsa''"
    by (simp add: ex_env_ecdsa_def)
  have resolved: "ex_contacts (pki_data ex_env_ecdsa) =
      Inr \<lparr>validated = Some True, address = Some ''1Alice''\<rparr>"
    by (simp add: ex_contacts_def ex_env_ecdsa_def)
  have validated: "validated \<lparr>validated = Some True, address = Some ''1Alice''\<rparr> = Some True"
    by simp
  have dispatch: "raw (ex_request ''raw-ecdsa'') \<noteq> [] \<and>
      ParseFromString_PaymentRequest ex_collab (raw (ex_request ''raw-ecdsa'')) = Some ex_env_ecdsa \<and>
      signature ex_env_ecdsa \<noteq> []"
    by (simp add: ex_collab_def ex_request_def ex_env_ecdsa_def)
  have other: "raw (ex_request ''raw-none'') \<noteq> [] \<and>
      ParseFromString_PaymentRequest ex_collab (raw (ex_request ''raw-none'')) = Some ex_env_none \<and>
      signature ex_env_none \<noteq> [] \<and> pki_type ex_env_none \<noteq> ''x509+sha256'' \<and>
      pki_type ex_env_none \<noteq> ''x509+sha1'' \<and> pki_type ex_env_none \<noteq> ''dnssec+btc'' \<and>
      pki_type ex_env_none \<noteq> ''dnssec+ecdsa''"
    by (simp add: ex_collab_def ex_request_def ex_env_none_def)
  show ?thesis
    using dnssec_ecdsa_not_implemented [where c = ex_collab and cts = ex_contacts
        and pr = ex_env_ecdsa and self = "ex_request ''raw-ecdsa''"
        and other = "ex_request ''raw-none''" and pr' = ex_env_none,
        OF ecdsa resolved validated] dispatch other
    by blast
qed

section \<open>Requestor identity\<close>

text \<open>
  C6, as the code has it. A request whose requestor is unset reports \<open>unknown\<close>. A call
  of \<open>verify\<close> that does not succeed (it raises, or it returns \<open>None\<close> or \<open>False\<close>) never
  clears the requestor, and what it leaves is decided by how far it got. The requestor
  is the one held before the call when the call ends before the identity is read: an
  empty request, an envelope that does not decode, a missing signature, a PKI type other
  than the two x509 types and \<open>dnssec+btc\<close>, for x509 a trust store that is not loaded, a
  certificate list that does not decode or is empty, a first certificate that does not
  parse or is outside its validity window, for \<open>dnssec+btc\<close> a resolver that raises or an
  alias that is not DNSSEC-validated. When an x509 request gets past the validity check of
  its first certificate, the requestor is that certificate's common name with a leading
  \<open>*.\<close> stripped, whatever fails afterwards; when a \<open>dnssec+btc\<close> request has a
  validated alias, the requestor is the alias.
\<close>

theorem failed_verification_requestor:
  assumes out: "verify c self cts = Inl (exc, self') \<or>
      verify c self cts = Inr (r, self') \<and> r \<noteq> Some True"
  shows "(requestor self = None \<longrightarrow> get_requestor self = ''unknown'') \<and>
    (raw self = [] \<or> ParseFromString_PaymentRequest c (raw self) = None \<longrightarrow>
       requestor self' = requestor self) \<and>
    (ParseFromString_PaymentRequest c (raw self) = Some pr \<and>
     (signature pr = [] \<or>
      pki_type pr \<noteq> ''x509+sha256'' \<and> pki_type pr \<noteq> ''x509+sha1'' \<and>
      pki_type pr \<noteq> ''dnssec+btc'') \<longrightarrow>
       requestor self' = requestor self) \<and>
    (ParseFromString_PaymentRequest c (raw self) = Some pr \<and>
     (pki_type pr = ''x509+sha256'' \<or> pki_type pr = ''x509+sha1'') \<and>
     (ca_list c = [] \<or>
      ParseFromString_X509Certificates c (pki_data pr) = None \<or>
      ParseFromString_X509Certificates c (pki_data pr) = Some [] \<or>
      ParseFromString_X509Certificates c (pki_data pr) = Some (b # bs) \<and>
        (parseBinary c b = None \<or> parseBinary c b = Some x \<and> check_date x \<noteq> None)) \<longrightarrow>
       requestor self' = requestor self) \<and>
    (ParseFromString_PaymentRequest c (raw self) = Some pr \<and> pki_type pr = ''dnssec+btc'' \<and>
     (cts (pki_data pr) = Inl e \<or>
      cts (pki_data pr) = Inr info \<and> validated info \<noteq> Some True) \<longrightarrow>
       requestor self' = requestor self) \<and>
    (raw self \<noteq> [] \<and> ParseFromString_PaymentRequest c (raw self) = Some pr \<and>
     signature pr \<noteq> [] \<and> (pki_type pr = ''x509+sha256'' \<or> pki_type pr = ''x509+sha1'') \<and>
     ca_list c \<noteq> [] \<and> ParseFromString_X509Certificates c (pki_data pr) = Some (b # bs) \<and>
     parseBinary c b = Some x \<and> check_date x = None \<longrightarrow>
       requestor self' = Some (strip_wildcard (get_common_name x))) \<and>
    (raw self \<noteq> [] \<and> ParseFromString_PaymentRequest c (raw self) = Some pr \<and>
     signature pr \<noteq> [] \<and> pki_type pr = ''dnssec+btc'' \<and> cts (pki_data pr) = Inr info \<and>
     validated info = Some True \<longrightarrow>
       requestor self' = Some (pki_data pr))"
proof -
  from out have after: "object_after (verify c self cts) = self'"
    by auto
  note req = verify_requestor [of c self cts, unfolded after]
  show ?thesis
  proof (intro conjI)
    show "requestor self = None \<longrightarrow> get_requestor self = ''unknown''"
      by (simp add: get_requestor_def)
  next
    show "raw self = [] \<or> ParseFromString_PaymentRequest c (raw self) = None \<longrightarrow>
       requestor self' = requestor self"
      using req by auto
  next
    show "ParseFromString_PaymentRequest c (raw self) = Some pr \<and>
     (signature pr = [] \<or>
      pki_type pr \<noteq> ''x509+sha256'' \<and> pki_type pr \<noteq> ''x509+sha1'' \<and>
      pki_type pr \<noteq> ''dnssec+btc'') \<longrightarrow>
       requestor self' = requestor self"
    proof (intro impI, elim conjE)
      assume dec: "ParseFromString_PaymentRequest c (raw self) = Some pr"
        and why: "signature pr = [] \<or>
          pki_type pr \<noteq> ''x509+sha256'' \<and> pki_type pr \<noteq> ''x509+sha1'' \<and>
          pki_type pr \<noteq> ''dnssec+btc''"
      from why show "requestor self' = requestor self"
      proof
        assume "signature pr = []"
        with req dec show ?thesis by simp
      next
        assume other: "pki_type pr \<noteq> ''x509+sha256'' \<and> pki_type pr \<noteq> ''x509+sha1'' \<and>
          pki_type pr \<noteq> ''dnssec+btc''"
        then have "requestor (object_after (verify_dnssec c self pr cts)) = requestor self"
          by (simp add: verify_dnssec_requestor_early)
        with req dec other show ?thesis by simp
      qed
    qed
  next
    show "ParseFromString_PaymentRequest c (raw self) = Some pr \<and>
     (pki_type pr = ''x509+sha256'' \<or> pki_type pr = ''x509+sha1'') \<and>
     (ca_list c = [] \<or>
      ParseFromString_X509Certificates c (pki_data pr) = None \<or>
      ParseFromString_X509Certificates c (pki_data pr) = Some [] \<or>
      ParseFromString_X509Certificates c (pki_data pr) = Some (b # bs) \<and>
        (parseBinary c b = None \<or> parseBinary c b = Some x \<and> check_date x \<noteq> None)) \<longrightarrow>
       requestor self' = requestor self"
    proof (intro impI, elim conjE)
      assume dec: "ParseFromString_PaymentRequest c (raw self) = Some pr"
        and x509: "pki_type pr = ''x509+sha256'' \<or> pki_type pr = ''x509+sha1''"
        and early: "ca_list c = [] \<or>
          ParseFromString_X509Certificates c (pki_data pr) = None \<or>
          ParseFromString_X509Certificates c (pki_data pr) = Some [] \<or>
          ParseFromString_X509Certificates c (pki_data pr) = Some (b # bs) \<and>
            (parseBinary c b = None \<or> parseBinary c b = Some x \<and> check_date x \<noteq> None)"
      have "requestor (object_after (verify_x509 c self pr)) = requestor self"
        using early by (rule verify_x509_requestor_early)
      with req dec x509 show "requestor self' = requestor self" by simp
    qed
  next
    show "ParseFromString_PaymentRequest c (raw self) = Some pr \<and> pki_type pr = ''dnssec+btc'' \<and>
     (cts (pki_data pr) = Inl e \<or>
      cts (pki_data pr) = Inr info \<and> validated info \<noteq> Some True) \<longrightarrow>
       requestor self' = requestor self"
    proof (intro impI, elim conjE)
      assume dec: "ParseFromString_PaymentRequest c (raw self) = Some pr"
        and btc: "pki_type pr = ''dnssec+btc''"
        and early: "cts (pki_data pr) = Inl e \<or>
          cts (pki_data pr) = Inr info \<and> validated info \<noteq> Some True"
      from early have "requestor (object_after (verify_dnssec c self pr cts)) = requestor self"
        by (intro verify_dnssec_requestor_early [where e = e and info = info]) blast
      with req dec btc show "requestor self' = requestor self" by simp
    qed
  next
    show "raw self \<noteq> [] \<and> ParseFromString_PaymentRequest c (raw self) = Some pr \<and>
     signature pr \<noteq> [] \<and> (pki_type pr = ''x509+sha256'' \<or> pki_type pr = ''x509+sha1'') \<and>
     ca_list c \<noteq> [] \<and> ParseFromString_X509Certificates c (pki_data pr) = Some (b # bs) \<and>
     parseBinary c b = Some x \<and> check_date x = None \<longrightarrow>
       requestor self' = Some (strip_wildcard (get_common_name x))"
    proof (intro impI, elim conjE)
      assume reach: "raw self \<noteq> []" "ParseFromString_PaymentRequest c (raw self) = Some pr"
        "signature pr \<noteq> []" "pki_type pr = ''x509+sha256'' \<or> pki_type pr = ''x509+sha1''"
        and read: "ca_list c \<noteq> []"
        "ParseFromString_X509Certificates c (pki_data pr) = Some (b # bs)"
        "parseBinary c b = Some x" "check_date x = None"
      have "requestor (object_after (verify_x509 c self pr)) =
          Some (strip_wildcard (get_common_name x))"
        using read by (rule verify_x509_requestor_read)
      with req reach show "requestor self' = Some (strip_wildcard (get_common_name x))"
        by simp
    qed
  next
    show "raw self \<noteq> [] \<and> ParseFromString_PaymentRequest c (raw self) = Some pr \<and>
     signature pr \<noteq> [] \<and> pki_type pr = ''dnssec+btc'' \<and> cts (pki_data pr) = Inr info \<and>
     validated info = Some True \<longrightarrow>
       requestor self' = Some (pki_data pr)"
    proof (intro impI, elim conjE)
      assume reach: "raw self \<noteq> []" "ParseFromString_PaymentRequest c (raw self) = Some pr"
        "signature pr \<noteq> []" "pki_type pr = ''dnssec+btc''"
        and read: "cts (pki_data pr) = Inr info" "validated info = Some True"
      have "requestor (object_after (verify_dnssec c self pr cts)) = Some (pki_data pr)"
        using read reach(4) by (rule verify_dnssec_requestor_read)
      with req reach show "requestor self' = Some (pki_data pr)"
        by simp
    qed
  qed
qed

theorem failed_verification_requestor_witness:
  "get_requestor (ex_request ''raw-single'') = ''unknown'' \<and>
   verify ex_collab (ex_request ''raw-single'') ex_contacts =
     Inr (Some False, (ex_request ''raw-single'')\<lparr>requestor := Some ''merchant.example'',
        error := Some ''ERROR: CA Certificate Chain Not Provided by Payment Processor''\<rparr>) \<and>
   requestor ((ex_request ''raw-single'')\<lparr>requestor := Some ''merchant.example'',
        error := Some ''ERROR: CA Certificate Chain Not Provided by Payment Processor''\<rparr>) =
     Some (strip_wildcard (get_common_name ex_leaf)) \<and>
   verify ex_collab (ex_request ''raw-broken'') ex_contacts =
     Inl (X509Error, (ex_request ''raw-broken'')\<lparr>requestor := Some ''merchant.example''\<rparr>) \<and>
   requestor ((ex_request ''raw-broken'')\<lparr>requestor := Some ''merchant.example''\<rparr>) =
     Some (strip_wildcard (get_common_name ex_leaf)) \<and>
   verify ex_collab (ex_request ''raw-btc-bad'') ex_contacts =
     Inr (Some False, (ex_request ''raw-btc-bad'')\<lparr>requestor := Some ''alice.example'',
        error := Some ''verify failed''\<rparr>) \<and>
   requestor ((ex_request ''raw-btc-bad'')\<lparr>requestor := Some ''alice.example'',
        error := Some ''verify failed''\<rparr>) = Some (pki_data ex_env_btc_bad) \<and>
   verify ex_collab (ex_request ''raw-btc'') ex_contacts =
     Inr (Some False, (ex_request ''raw-btc'')
        \<lparr>error := Some ''Alias verification failed (DNSSEC)''\<rparr>) \<and>
   requestor ((ex_request ''raw-btc'')\<lparr>error := Some ''Alias verification failed (DNSSEC)''\<rparr>) =
     requestor (ex_request ''raw-btc'') \<and>
   verify ex_collab (ex_request ''raw-expired'') ex_contacts =
     Inr (None, (ex_request ''raw-expired'')\<lparr>error := Some ''Certificate has expired.''\<rparr>) \<and>
   requestor ((ex_request ''raw-expired'')\<lparr>error := Some ''Certificate has expired.''\<rparr>) =
     requestor (ex_request ''raw-expired'') \<and>
   verify ex_collab (ex_request ''raw-none'') ex_contacts =
     Inr (Some False, (ex_request ''raw-none'')
        \<lparr>error := Some ''ERROR: Unsupported PKI Type for Message Signature''\<rparr>) \<and>
   requestor ((ex_request ''raw-none'')
        \<lparr>error := Some ''ERROR: Unsupported PKI Type for Message Signature''\<rparr>) =
     requestor (ex_request ''raw-none'')"
proof -
  have failed: "Some False \<noteq> Some True" "None \<noteq> Some True" by simp_all

  have run1: "verify ex_collab (ex_request ''raw-single'') ex_contacts =
     Inr (Some False, (ex_request ''raw-single'')\<lparr>requestor := Some ''merchant.example'',
        error := Some ''ERROR: CA Certificate Chain Not Provided by Payment Processor''\<rparr>)"
    by (simp add: verify_def verify_x509_def verify_x509_chain_def strip_wildcard_def
        ex_collab_def ex_request_def ex_env_single_def ex_leaf_def)
  have fresh: "requestor (ex_request ''raw-single'') = None"
    by (simp add: ex_request_def)
  have read1: "raw (ex_request ''raw-single'') \<noteq> [] \<and>
      ParseFromString_PaymentRequest ex_collab (raw (ex_request ''raw-single'')) = Some ex_env_single \<and>
      signature ex_env_single \<noteq> [] \<and>
      (pki_type ex_env_single = ''x509+sha256'' \<or> pki_type ex_env_single = ''x509+sha1'') \<and>
      ca_list ex_collab \<noteq> [] \<and>
      ParseFromString_X509Certificates ex_collab (pki_data ex_env_single) = Some (''certL'' # []) \<and>
      parseBinary ex_collab ''certL'' = Some ex_leaf \<and> check_date ex_leaf = None"
    by (simp add: ex_collab_def ex_request_def ex_env_single_def ex_leaf_def)
  note one = failed_verification_requestor [where r = "Some False" and exc = X509Error
      and pr = ex_env_single and b = "''certL''" and bs = "[]" and x = ex_leaf and e = ResolveError
      and info = "\<lparr>validated = None, address = None\<rparr>",
      OF disjI2, OF conjI, OF run1 failed(1)]
  from one fresh have a1: "get_requestor (ex_request ''raw-single'') = ''unknown''"
    by blast
  from one read1 have b1: "requestor ((ex_request ''raw-single'')
        \<lparr>requestor := Some ''merchant.example'',
        error := Some ''ERROR: CA Certificate Chain Not Provided by Payment Processor''\<rparr>) =
     Some (strip_wildcard (get_common_name ex_leaf))"
    by blast

  have run2: "verify ex_collab (ex_request ''raw-broken'') ex_contacts =
     Inl (X509Error, (ex_request ''raw-broken'')\<lparr>requestor := Some ''merchant.example''\<rparr>)"
    by (simp add: verify_def verify_x509_def strip_wildcard_def
        ex_collab_def ex_request_def ex_env_broken_def ex_leaf_def)
  have read2: "raw (ex_request ''raw-broken'') \<noteq> [] \<and>
      ParseFromString_PaymentRequest ex_collab (raw (ex_request ''raw-broken'')) = Some ex_env_broken \<and>
      signature ex_env_broken \<noteq> [] \<and>
      (pki_type ex_env_broken = ''x509+sha256'' \<or> pki_type ex_env_broken = ''x509+sha1'') \<and>
      ca_list ex_collab \<noteq> [] \<and>
      ParseFromString_X509Certificates ex_collab (pki_data ex_env_broken)
        = Some (''certL'' # [''junk'']) \<and>
      parseBinary ex_collab ''certL'' = Some ex_leaf \<and> check_date ex_leaf = None"
    by (simp add: ex_collab_def ex_request_def ex_env_broken_def ex_leaf_def)
  note two = failed_verification_requestor [where r = "Some False" and exc = X509Error
      and pr = ex_env_broken and b = "''certL''" and bs = "[''junk'']" and x = ex_leaf and e = ResolveError
      and info = "\<lparr>validated = None, address = None\<rparr>",
      OF disjI1, OF run2]
  from two read2 have b2: "requestor ((ex_request ''raw-broken'')
        \<lparr>requestor := Some ''merchant.example''\<rparr>) =
     Some (strip_wildcard (get_common_name ex_leaf))"
    by blast

  have run3: "verify ex_collab (ex_request ''raw-btc-bad'') ex_contacts =
     Inr (Some False, (ex_request ''raw-btc-bad'')\<lparr>requestor := Some ''alice.example'',
        error := Some ''verify failed''\<rparr>)"
    by (simp add: verify_def verify_dnssec_def ex_collab_def ex_contacts_def ex_request_def
        ex_env_btc_bad_def)
  have read3: "raw (ex_request ''raw-btc-bad'') \<noteq> [] \<and>
      ParseFromString_PaymentRequest ex_collab (raw (ex_request ''raw-btc-bad'')) = Some ex_env_btc_bad \<and>
      signature ex_env_btc_bad \<noteq> [] \<and> pki_type ex_env_btc_bad = ''dnssec+btc'' \<and>
      ex_contacts (pki_data ex_env_btc_bad) = Inr \<lparr>validated = Some True, address = Some ''1Alice''\<rparr> \<and>
      validated \<lparr>validated = Some True, address = Some ''1Alice''\<rparr> = Some True"
    by (simp add: ex_collab_def ex_contacts_def ex_request_def ex_env_btc_bad_def)
  note three = failed_verification_requestor [where r = "Some False" and exc = X509Error
      and pr = ex_env_btc_bad and e = ResolveError
      and info = "\<lparr>validated = Some True, address = Some ''1Alice''\<rparr>" and b = "''certL''" and bs = "[]" and x = ex_leaf,
      OF disjI2, OF conjI, OF run3 failed(1)]
  from three read3 have b3: "requestor ((ex_request ''raw-btc-bad'')
        \<lparr>requestor := Some ''alice.example'', error := Some ''verify failed''\<rparr>) =
      Some (pki_data ex_env_btc_bad)"
    by blast

  have run4: "verify ex_collab (ex_request ''raw-btc'') ex_contacts =
     Inr (Some False, (ex_request ''raw-btc'')
        \<lparr>error := Some ''Alias verification failed (DNSSEC)''\<rparr>)"
    by (simp add: verify_def verify_dnssec_def ex_collab_def ex_contacts_def ex_request_def
        ex_env_btc_def)
  have early4: "ParseFromString_PaymentRequest ex_collab (raw (ex_request ''raw-btc'')) = Some ex_env_btc \<and>
      pki_type ex_env_btc = ''dnssec+btc'' \<and>
      (ex_contacts (pki_data ex_env_btc) = Inl ResolveError \<or>
       ex_contacts (pki_data ex_env_btc) = Inr \<lparr>validated = Some False, address = Some ''1Bob''\<rparr> \<and>
       validated \<lparr>validated = Some False, address = Some ''1Bob''\<rparr> \<noteq> Some True)"
    by (simp add: ex_collab_def ex_contacts_def ex_request_def ex_env_btc_def)
  note four = failed_verification_requestor [where r = "Some False" and exc = X509Error
      and pr = ex_env_btc and e = ResolveError
      and info = "\<lparr>validated = Some False, address = Some ''1Bob''\<rparr>" and b = "''certL''" and bs = "[]" and x = ex_leaf,
      OF disjI2, OF conjI, OF run4 failed(1)]
  from four early4 have b4: "requestor ((ex_request ''raw-btc'')
        \<lparr>error := Some ''Alias verification failed (DNSSEC)''\<rparr>) =
      requestor (ex_request ''raw-btc'')"
    by blast

  have run5: "verify ex_collab (ex_request ''raw-expired'') ex_contacts =
     Inr (None, (ex_request ''raw-expired'')\<lparr>error := Some ''Certificate has expired.''\<rparr>)"
    by (simp add: verify_def verify_x509_def ex_collab_def ex_request_def ex_env_expired_def
        ex_expired_def)
  have early5: "ParseFromString_PaymentRequest ex_collab (raw (ex_request ''raw-expired''))
        = Some ex_env_expired \<and>
      (pki_type ex_env_expired = ''x509+sha256'' \<or> pki_type ex_env_expired = ''x509+sha1'') \<and>
      (ca_list ex_collab = [] \<or>
       ParseFromString_X509Certificates ex_collab (pki_data ex_env_expired) = None \<or>
       ParseFromString_X509Certificates ex_collab (pki_data ex_env_expired) = Some [] \<or>
       ParseFromString_X509Certificates ex_collab (pki_data ex_env_expired) = Some (''certX'' # []) \<and>
         (parseBinary ex_collab ''certX'' = None \<or>
          parseBinary ex_collab ''certX'' = Some ex_expired \<and> check_date ex_expired \<noteq> None))"
    by (simp add: ex_collab_def ex_request_def ex_env_expired_def ex_expired_def)
  note five = failed_verification_requestor [where r = None and exc = X509Error
      and pr = ex_env_expired and b = "''certX''" and bs = "[]" and x = ex_expired and e = ResolveError
      and info = "\<lparr>validated = None, address = None\<rparr>",
      OF disjI2, OF conjI, OF run5 failed(2)]
  from five early5 have b5: "requestor ((ex_request ''raw-expired'')
        \<lparr>error := Some ''Certificate has expired.''\<rparr>) = requestor (ex_request ''raw-expired'')"
    by blast

  have run6: "verify ex_collab (ex_request ''raw-none'') ex_contacts =
     Inr (Some False, (ex_request ''raw-none'')
        \<lparr>error := Some ''ERROR: Unsupported PKI Type for Message Signature''\<rparr>)"
    by (simp add: verify_def ex_collab_def ex_request_def ex_env_none_def)
  have early6: "ParseFromString_PaymentRequest ex_collab (raw (ex_request ''raw-none'')) = Some ex_env_none \<and>
      (signature ex_env_none = [] \<or>
       pki_type ex_env_none \<noteq> ''x509+sha256'' \<and> pki_type ex_env_none \<noteq> ''x509+sha1'' \<and>
       pki_type ex_env_none \<noteq> ''dnssec+btc'')"
    by (simp add: ex_collab_def ex_request_def ex_env_none_def)
  note six = failed_verification_requestor [where r = "Some False" and exc = X509Error
      and pr = ex_env_none and b = "''certL''" and bs = "[]" and x = ex_leaf and e = ResolveError
      and info = "\<lparr>validated = None, address = None\<rparr>",
      OF disjI2, OF conjI, OF run6 failed(1)]
  from six early6 have b6: "requestor ((ex_request ''raw-none'')
        \<lparr>error := Some ''ERROR: Unsupported PKI Type for Message Signature''\<rparr>) =
      requestor (ex_request ''raw-none'')"
    by blast

  from a1 run1 b1 run2 b2 run3 b3 run4 b4 run5 b5 run6 b6 show ?thesis
    by (intro conjI)
qed

text \<open>
  The claim C6 as stated fails on a freshly constructed request with a single valid leaf
  certificate: verification fails for the missing chain, and \<open>get_requestor\<close> reports
  the leaf's common name.
\<close>

theorem failed_verification_keeps_requestor_counterexample:
  "init ex_collab ''raw-single'' = Inr (ex_request ''raw-single'') \<and>
   verify ex_collab (ex_request ''raw-single'') ex_contacts =
     Inr (Some False, (ex_request ''raw-single'')\<lparr>requestor := Some ''merchant.example'',
        error := Some ''ERROR: CA Certificate Chain Not Provided by Payment Processor''\<rparr>) \<and>
   get_requestor ((ex_request ''raw-single'')\<lparr>requestor := Some ''merchant.example'',
        error := Some ''ERROR: CA Certificate Chain Not Provided by Payment Processor''\<rparr>) =
     ''merchant.example'' \<and>
   get_requestor ((ex_request ''raw-single'')\<lparr>requestor := Some ''merchant.example'',
        error := Some ''ERROR: CA Certificate Chain Not Provided by Payment Processor''\<rparr>) \<noteq>
     ''unknown''"
  by (simp add: init_def parse_def verify_def verify_x509_def verify_x509_chain_def
      strip_wildcard_def get_requestor_def ex_collab_def ex_request_def ex_env_single_def
      ex_leaf_def ex_details_def)

section \<open>Expiry\<close>

text \<open>
  C9. For a payment request with decoded details, \<open>has_expired\<close> returns without an
  exception, and its result is falsy when no expiry time is set (\<open>expires\<close> is 0), true
  when a set expiry time is strictly less than the current time, and false when the
  expiry time equals the current time or lies in the future.
\<close>

theorem has_expired_strict:
  assumes "details self = Some d"
  shows "\<exists>v. has_expired self now = Inr v \<and>
           (expires d = 0 \<longrightarrow> \<not> truthy v) \<and>
           (expires d \<noteq> 0 \<and> int (expires d) < now \<longrightarrow> truthy v) \<and>
           (int (expires d) = now \<longrightarrow> \<not> truthy v) \<and>
           (now < int (expires d) \<longrightarrow> \<not> truthy v)"
  using assms by (simp add: has_expired_def)

theorem has_expired_strict_witness:
  "(\<exists>v. has_expired (ex_request ''raw-direct'') 101 = Inr v \<and> truthy v) \<and>
   (\<exists>v. has_expired (ex_request ''raw-direct'') 100 = Inr v \<and> \<not> truthy v) \<and>
   (\<exists>v. has_expired (ex_request ''raw-direct'') 99 = Inr v \<and> \<not> truthy v) \<and>
   (\<exists>v. has_expired ((ex_request ''raw-direct'')\<lparr>details := Some (ex_details\<lparr>expires := 0\<rparr>)\<rparr>) 100
      = Inr v \<and> \<not> truthy v)"
  using
    has_expired_strict [of "ex_request ''raw-direct''" ex_details 101]
    has_expired_strict [of "ex_request ''raw-direct''" ex_details 100]
    has_expired_strict [of "ex_request ''raw-direct''" ex_details 99]
    has_expired_strict [of "(ex_request ''raw-direct'')\<lparr>details := Some (ex_details\<lparr>expires := 0\<rparr>)\<rparr>"
      "ex_details\<lparr>expires := 0\<rparr>" 100]
  by (simp add: ex_request_def ex_details_def)

section \<open>Invoice status\<close>

text \<open>
  C10. \<open>get_status\<close> returns a status, which is then one of PAID, EXPIRED and UNPAID,
  only for a key that is present in the store. For a key that is absent, \<open>get\<close> returns
  \<open>None\<close> and \<open>get_status\<close> returns no status: reading \<open>tx\<close> of the absent record raises
  \<open>AttributeError\<close>.
\<close>

theorem get_status_needs_present_key:
  "(get_status self key now = Inr st \<longrightarrow>
      get self key \<noteq> None \<and> (st = PR_PAID \<or> st = PR_EXPIRED \<or> st = PR_UNPAID)) \<and>
   (get self key = None \<longrightarrow> get_status self key now = Inl AttributeError)"
  by (auto simp: get_status_def split: option.splits sum.splits if_splits)

theorem get_status_needs_present_key_witness:
  "get_status \<lparr>invoices = [''ab'' \<mapsto> ex_request ''raw-direct'']\<rparr> ''ab'' 101 = Inr PR_EXPIRED \<and>
   get \<lparr>invoices = [''ab'' \<mapsto> ex_request ''raw-direct'']\<rparr> ''ab'' \<noteq> None \<and>
   get \<lparr>invoices = Map.empty\<rparr> ''ab'' = None \<and>
   get_status \<lparr>invoices = Map.empty\<rparr> ''ab'' 101 = Inl AttributeError"
proof -
  have run: "get_status \<lparr>invoices = [''ab'' \<mapsto> ex_request ''raw-direct'']\<rparr> ''ab'' 101
      = Inr PR_EXPIRED"
    by (simp add: get_status_def get_def has_expired_def ex_request_def ex_details_def)
  have absent: "get \<lparr>invoices = Map.empty\<rparr> ''ab'' = None"
    by (simp add: get_def)
  show ?thesis
    using run absent
      get_status_needs_present_key [of "\<lparr>invoices = [''ab'' \<mapsto> ex_request ''raw-direct'']\<rparr>"
        "''ab''" 101 PR_EXPIRED]
      get_status_needs_present_key [of "\<lparr>invoices = Map.empty\<rparr>" "''ab''" 101 0]
    by simp
qed

end
